theory Spec2Isabelle
  imports Complex_Main
begin

section \<open>Data model\<close>

text \<open>
  The exporter polls the sensors of an Enviro+ board and republishes the readings.
  Python floats are modelled as \<^typ>\<open>real\<close> (exact arithmetic, no rounding, no NaN),
  except where the rounding of double arithmetic decides a property: there the type
  \<open>double\<close> and its operations are used. Integers are \<^typ>\<open>int\<close>. Every exception of the source is a value of \<open>error\<close>,
  and a function that can raise returns \<open>error + 'a\<close> next to the state it leaves.
\<close>

datatype error =
  IOError | ReadTimeoutError | TypeError | AttributeError | ValueError | IndexError | KeyError
  | ZeroDivisionError | OtherError

datatype level = INFO | WARNING | ERROR

text \<open>The gauges and histograms declared at module level in \<open>enviroplus_exporter.py\<close>.\<close>

datatype gauge =
  TEMPERATURE | PRESSURE | HUMIDITY | OXIDISING | REDUCING | NH3 | LUX | PROXIMITY
  | PM1 | PM25 | PM10

datatype histogram =
  OXIDISING_HIST | REDUCING_HIST | NH3_HIST | PM1_HIST | PM25_HIST | PM10_HIST

text \<open>The vendor driver calls (and the thermal-zone file) that touch hardware.\<close>

datatype driver =
  BME280_get_temperature | BME280_get_pressure | BME280_get_humidity | GAS_read_all
  | LTR559_get_lux | LTR559_get_proximity | PMS5003_read | CPU_thermal_zone

text \<open>The accessor functions of \<open>enviroplus_api.py\<close>.\<close>

datatype accessor =
  Get_temperature | Get_pressure | Get_humidity | Get_gas | Get_light | Get_particulates

record gas_reading =
  oxidising :: real
  reducing :: real
  nh3 :: real

record light_reading =
  lux :: real
  prox :: real

text \<open>
  A PMS5003 sample; \<open>pm_ug_per_m3\<close> selects one of its three mass concentrations
  (the sensor reports them as integers).
\<close>

record pms_data =
  pm1_0 :: int
  pm2_5 :: int
  pm10_0 :: int

datatype pm_size = Size_1_0 | Size_2_5 | Size_10

fun pm_ug_per_m3 :: "pms_data \<Rightarrow> pm_size \<Rightarrow> int" where
  "pm_ug_per_m3 d Size_1_0 = pm1_0 d"
| "pm_ug_per_m3 d Size_2_5 = pm2_5 d"
| "pm_ug_per_m3 d Size_10 = pm10_0 d"

text \<open>
  A JSON value of the Luftdaten payload: a float taken from a gauge, or the string
  produced by \<open>"{:.2f}".format(x)\<close>, kept symbolic.
\<close>

datatype json_value = JFloat real | JFormat2f real

record http_request =
  url :: string
  software_version :: string
  sensordatavalues :: "(string \<times> json_value) list"
  headers :: "(string \<times> string) list"

text \<open>
  The process state the claims talk about: the metric registry, the log, the number of
  bus resets and the seconds slept, and the traces of accessor calls, driver calls and
  HTTP POSTs. A histogram is the sequence of the amounts it has observed.
\<close>

record state =
  gauges :: "gauge \<Rightarrow> real"
  hists :: "histogram \<Rightarrow> real list"
  logged :: "(level \<times> string) list"
  i2c_resets :: nat
  slept :: nat
  api_calls :: "accessor list"
  driver_calls :: "driver list"
  http_posts :: "http_request list"

text \<open>A freshly started process: every gauge is 0.0, nothing observed or logged.\<close>

definition initial_state :: state where
  "initial_state =
     \<lparr>gauges = (\<lambda>_. 0), hists = (\<lambda>_. []), logged = [], i2c_resets = 0, slept = 0,
      api_calls = [], driver_calls = [], http_posts = []\<rparr>"

text \<open>
  What the hardware answers during one iteration of the poll loop: each driver call
  either raises or returns a value. The thermal-zone file is read twice by
  \<open>get_temperature\<close>; its content is an integer number of millidegrees.
\<close>

record readings =
  bme_temperature :: "error + real"
  cpu_first :: "error + int"
  cpu_second :: "error + int"
  bme_pressure :: "error + real"
  bme_humidity :: "error + real"
  ltr_lux :: "error + real"
  ltr_proximity :: "error + real"
  gas_all :: "error + gas_reading"
  pms_read :: "error + pms_data"

section \<open>Logging, bus reset, metric updates\<close>

definition logging_at :: "level \<Rightarrow> string \<Rightarrow> state \<Rightarrow> state" where
  "logging_at l msg s = s\<lparr>logged := logged s @ [(l, msg)]\<rparr>"

text \<open>\<open>reset_i2c\<close>: one run of \<open>i2cdetect -y 1\<close>, then \<open>time.sleep(2)\<close>.\<close>

definition reset_i2c :: "state \<Rightarrow> state" where
  "reset_i2c s = s\<lparr>i2c_resets := Suc (i2c_resets s), slept := slept s + 2\<rparr>"

definition called :: "accessor \<Rightarrow> state \<Rightarrow> state" where
  "called a s = s\<lparr>api_calls := api_calls s @ [a]\<rparr>"

definition driver_call :: "driver \<Rightarrow> state \<Rightarrow> state" where
  "driver_call d s = s\<lparr>driver_calls := driver_calls s @ [d]\<rparr>"

definition set_value :: "gauge \<Rightarrow> real \<Rightarrow> state \<Rightarrow> state" where
  "set_value g v s = s\<lparr>gauges := (gauges s)(g := v)\<rparr>"

text \<open>
  \<open>Gauge.set(value)\<close> of prometheus_client stores \<open>float(value)\<close>; on \<open>None\<close> the
  conversion raises \<open>TypeError\<close> before anything is stored.
\<close>

definition Gauge_set :: "gauge \<Rightarrow> real option \<Rightarrow> state \<Rightarrow> (error + unit) \<times> state" where
  "Gauge_set g v s =
     (case v of None \<Rightarrow> (Inl TypeError, s) | Some x \<Rightarrow> (Inr (), set_value g x s))"

definition observe :: "histogram \<Rightarrow> real \<Rightarrow> state \<Rightarrow> state" where
  "observe h v s = s\<lparr>hists := (hists s)(h := hists s h @ [v])\<rparr>"

section \<open>Sensor access layer (enviroplus\_api.py)\<close>

text \<open>
  The handler shared by the accessors: \<open>except IOError\<close> logs at error level, resets the
  bus and lets the function fall off its end (it returns \<open>None\<close>); any other exception
  propagates.
\<close>

definition except_IOError :: "string \<Rightarrow> error \<Rightarrow> state \<Rightarrow> (error + 'a option) \<times> state" where
  "except_IOError msg e s =
     (if e = IOError then (Inr None, reset_i2c (logging_at ERROR msg s)) else (Inl e, s))"

definition get_pressure :: "readings \<Rightarrow> state \<Rightarrow> (error + real option) \<times> state" where
  "get_pressure r s0 =
     (let s = driver_call BME280_get_pressure (called Get_pressure s0) in
      case bme_pressure r of
        Inr pressure \<Rightarrow> (Inr (Some pressure), s)
      | Inl e \<Rightarrow> except_IOError ''Could not get pressure readings. Resetting i2c.'' e s)"

definition get_humidity :: "readings \<Rightarrow> state \<Rightarrow> (error + real option) \<times> state" where
  "get_humidity r s0 =
     (let s = driver_call BME280_get_humidity (called Get_humidity s0) in
      case bme_humidity r of
        Inr humidity \<Rightarrow> (Inr (Some humidity), s)
      | Inl e \<Rightarrow> except_IOError ''Could not get humidity readings. Resetting i2c.'' e s)"

definition get_gas :: "readings \<Rightarrow> state \<Rightarrow> (error + gas_reading option) \<times> state" where
  "get_gas r s0 =
     (let s = driver_call GAS_read_all (called Get_gas s0) in
      case gas_all r of
        Inr rs \<Rightarrow> (Inr (Some rs), s)
      | Inl e \<Rightarrow> except_IOError ''Could not get gas readings. Resetting i2c.'' e s)"

text \<open>The proximity is read only after the lux read has returned.\<close>

definition get_light :: "readings \<Rightarrow> state \<Rightarrow> (error + light_reading option) \<times> state" where
  "get_light r s0 =
     (let s1 = driver_call LTR559_get_lux (called Get_light s0) in
      case ltr_lux r of
        Inl e \<Rightarrow> except_IOError ''Could not get lux and proximity readings. Resetting i2c.'' e s1
      | Inr l \<Rightarrow>
          (let s2 = driver_call LTR559_get_proximity s1 in
           case ltr_proximity r of
             Inl e \<Rightarrow>
               except_IOError ''Could not get lux and proximity readings. Resetting i2c.'' e s2
           | Inr p \<Rightarrow> (Inr (Some \<lparr>lux = l, prox = p\<rparr>), s2)))"

text \<open>
  \<open>get_particulates\<close>: the read-timeout clause comes first and only warns; the
  \<open>IOError\<close> clause logs an error and resets; the \<open>else\<close> branch returns the sample.
\<close>

definition get_particulates :: "readings \<Rightarrow> state \<Rightarrow> (error + pms_data option) \<times> state" where
  "get_particulates r s0 =
     (let s = driver_call PMS5003_read (called Get_particulates s0) in
      case pms_read r of
        Inl e \<Rightarrow>
          (if e = ReadTimeoutError then (Inr None, logging_at WARNING ''Failed to read PMS5003'' s)
           else except_IOError ''Could not get particulate matter readings. Resetting i2c.'' e s)
      | Inr pms \<Rightarrow> (Inr (Some pms), s))"

subsection \<open>Temperature compensation\<close>

text \<open>
  The factor handed to \<open>get_temperature\<close> is \<open>None\<close>, \<open>False\<close> or a float; the
  \<open>if factor:\<close> test is Python truthiness, so only a nonzero float enables compensation.
\<close>

datatype pyfactor = PyNone | PyFalse | PyFloat real

fun truthy :: "pyfactor \<Rightarrow> bool" where
  "truthy PyNone = False"
| "truthy PyFalse = False"
| "truthy (PyFloat x) = (x \<noteq> 0)"

fun float_of :: "pyfactor \<Rightarrow> real" where
  "float_of (PyFloat x) = x"
| "float_of PyFalse = 0"
| "float_of PyNone = 0"

text \<open>\<open>get_cpu_temperature\<close>: \<open>int(f.read()) / 1000.0\<close>.\<close>

definition get_cpu_temperature :: "(error + int) \<Rightarrow> state \<Rightarrow> (error + real) \<times> state" where
  "get_cpu_temperature file s0 =
     (let s = driver_call CPU_thermal_zone s0 in
      case file of Inl e \<Rightarrow> (Inl e, s) | Inr temp \<Rightarrow> (Inr (real_of_int temp / 1000), s))"

text \<open>
  Lines 53 to 56 of \<open>enviroplus_api.py\<close>: the value of the local variable \<open>cpu_temps\<close>
  once the newest sample has been appended. It is built anew from the two samples taken
  during the call.
\<close>

definition cpu_temps :: "real \<Rightarrow> real \<Rightarrow> real list" where
  "cpu_temps seed cpu_temp = drop 1 (replicate 5 seed) @ [cpu_temp]"

definition avg_cpu_temp :: "real list \<Rightarrow> real" where
  "avg_cpu_temp ts = sum_list ts / real (length ts)"

text \<open>
  \<open>get_temperature\<close>: the BME280 read is not guarded, so any exception of it
  propagates. With a truthy factor the thermal zone is read twice.
\<close>

definition get_temperature :: "pyfactor \<Rightarrow> readings \<Rightarrow> state \<Rightarrow> (error + real) \<times> state" where
  "get_temperature factor r s0 =
     (let s1 = driver_call BME280_get_temperature (called Get_temperature s0) in
      case bme_temperature r of
        Inl e \<Rightarrow> (Inl e, s1)
      | Inr raw_temp \<Rightarrow>
          if truthy factor then
            (case get_cpu_temperature (cpu_first r) s1 of
               (Inl e, s2) \<Rightarrow> (Inl e, s2)
             | (Inr seed, s2) \<Rightarrow>
                 (case get_cpu_temperature (cpu_second r) s2 of
                    (Inl e, s3) \<Rightarrow> (Inl e, s3)
                  | (Inr cpu_temp, s3) \<Rightarrow>
                      (Inr (raw_temp -
                            ((avg_cpu_temp (cpu_temps seed cpu_temp) - raw_temp) / float_of factor)),
                       s3)))
          else (Inr raw_temp, s1))"

text \<open>
  The window a call works with, for the claims about it: \<open>None\<close> when the call does not
  reach line 56.
\<close>

definition window_of_call :: "pyfactor \<Rightarrow> readings \<Rightarrow> real list option" where
  "window_of_call factor r =
     (case (bme_temperature r, cpu_first r, cpu_second r) of
        (Inr raw_temp, Inr a, Inr b) \<Rightarrow>
          if truthy factor then Some (cpu_temps (real_of_int a / 1000) (real_of_int b / 1000))
          else None
      | _ \<Rightarrow> None)"

text \<open>
  The CPU temperatures sampled by a run of consecutive calls, oldest first: two per call
  that reaches the thermal zone.
\<close>

fun cpu_samples :: "readings list \<Rightarrow> real list" where
  "cpu_samples [] = []"
| "cpu_samples (r # rs) =
     (case (cpu_first r, cpu_second r) of
        (Inr a, Inr b) \<Rightarrow> [real_of_int a / 1000, real_of_int b / 1000] @ cpu_samples rs
      | _ \<Rightarrow> cpu_samples rs)"

subsection \<open>Line 58 in double arithmetic\<close>

text \<open>
  \<open>get_temperature\<close> above computes its result in exact arithmetic. Python floats are
  IEEE-754 binary64 numbers, and every operation rounds its exact result to the nearest
  double, ties to the even significand. This subsection models that rounding and, with
  it, the expression of line 58, \<open>raw_temp - ((avg_cpu_temp - raw_temp) / factor)\<close>.
  A double is a finite real (the two zeros are not told apart), an infinity or NaN.
\<close>

datatype double = Finite real | PlusInf | MinusInf | NaN

text \<open>The binary exponent of a positive real: \<open>2 powi ilog2 x \<le> x < 2 powi (ilog2 x + 1)\<close>.\<close>

function ilog2 :: "real \<Rightarrow> int" where
  "ilog2 x =
     (if x \<le> 0 then 0
      else if 2 \<le> x then ilog2 (x / 2) + 1
      else if x < 1 then ilog2 (2 * x) - 1
      else 0)"
  by pat_completeness auto
termination
proof (relation "measure (\<lambda>x. nat \<bar>\<lfloor>log 2 x\<rfloor>\<bar>)")
  show "wf (measure (\<lambda>x. nat \<bar>\<lfloor>log 2 x\<rfloor>\<bar>))" by simp
next
  fix x :: real
  assume "\<not> x \<le> 0" and x: "2 \<le> x"
  have "log 2 (x / 2) = log 2 x - 1" using x by (simp add: log_divide)
  moreover have "1 \<le> log 2 x" using x by (simp add: le_log_iff)
  then have "1 \<le> \<lfloor>log 2 x\<rfloor>" by linarith
  ultimately show "(x / 2, x) \<in> measure (\<lambda>x. nat \<bar>\<lfloor>log 2 x\<rfloor>\<bar>)"
    by simp
next
  fix x :: real
  assume x0: "\<not> x \<le> 0" and "\<not> 2 \<le> x" and x: "x < 1"
  have "log 2 (2 * x) = log 2 x + 1" using x0 by (simp add: log_mult)
  moreover have "log 2 x < 0" using x0 x by simp
  then have "\<lfloor>log 2 x\<rfloor> \<le> - 1" by linarith
  ultimately show "(2 * x, x) \<in> measure (\<lambda>x. nat \<bar>\<lfloor>log 2 x\<rfloor>\<bar>)"
    by simp
qed

declare ilog2.simps [simp del]

text \<open>Rounding to the nearest integer, a tie to the even one.\<close>

definition round_half_even :: "real \<Rightarrow> int" where
  "round_half_even x =
     (let k = \<lfloor>x\<rfloor>; r = x - of_int k in
      if r < 1 / 2 then k else if 1 / 2 < r then k + 1 else if even k then k else k + 1)"

text \<open>
  The spacing of the doubles around a positive real: 53 significant bits in its binade,
  and the spacing of the subnormal numbers below \<open>2 powi (- 1022)\<close>.
\<close>

definition quantum :: "real \<Rightarrow> real" where
  "quantum x = 2 powi (max (ilog2 x) (- 1022) - 52)"

text \<open>The nearest multiple of the spacing: the rounded magnitude, before overflow.\<close>

definition round_magnitude :: "real \<Rightarrow> real" where
  "round_magnitude x = of_int (round_half_even (x / quantum x)) * quantum x"

text \<open>
  Rounding a real to a double: the magnitude is rounded and the sign kept; a rounded
  magnitude of \<open>2 powi 1024\<close> or more overflows to an infinity.
\<close>

definition round_double :: "real \<Rightarrow> double" where
  "round_double x =
     (if x = 0 then Finite 0
      else if 0 < x then
        (if 2 powi 1024 \<le> round_magnitude x then PlusInf else Finite (round_magnitude x))
      else
        (if 2 powi 1024 \<le> round_magnitude (- x) then MinusInf
         else Finite (- round_magnitude (- x))))"

text \<open>The comparison \<open>\<le>\<close> of doubles: NaN is unordered.\<close>

fun dle :: "double \<Rightarrow> double \<Rightarrow> bool" where
  "dle NaN b = False"
| "dle a NaN = False"
| "dle MinusInf b = True"
| "dle a PlusInf = True"
| "dle (Finite x) (Finite y) = (x \<le> y)"
| "dle PlusInf b = False"
| "dle a MinusInf = False"

text \<open>Float subtraction.\<close>

fun dsub :: "double \<Rightarrow> double \<Rightarrow> double" where
  "dsub NaN b = NaN"
| "dsub a NaN = NaN"
| "dsub (Finite x) (Finite y) = round_double (x - y)"
| "dsub (Finite x) PlusInf = MinusInf"
| "dsub (Finite x) MinusInf = PlusInf"
| "dsub PlusInf PlusInf = NaN"
| "dsub PlusInf b = PlusInf"
| "dsub MinusInf MinusInf = NaN"
| "dsub MinusInf b = MinusInf"

text \<open>
  Float true division: Python raises \<open>ZeroDivisionError\<close> on a zero divisor, whatever
  is divided.
\<close>

fun ddiv :: "double \<Rightarrow> double \<Rightarrow> error + double" where
  "ddiv a (Finite y) =
     (if y = 0 then Inl ZeroDivisionError
      else (case a of
              Finite x \<Rightarrow> Inr (round_double (x / y))
            | PlusInf \<Rightarrow> Inr (if 0 < y then PlusInf else MinusInf)
            | MinusInf \<Rightarrow> Inr (if 0 < y then MinusInf else PlusInf)
            | NaN \<Rightarrow> Inr NaN))"
| "ddiv (Finite x) PlusInf = Inr (Finite 0)"
| "ddiv (Finite x) MinusInf = Inr (Finite 0)"
| "ddiv a b = Inr NaN"

text \<open>Line 58 of \<open>enviroplus_api.py\<close>, with the rounding of its three operations.\<close>

definition compensated_temperature :: "double \<Rightarrow> double \<Rightarrow> double \<Rightarrow> error + double" where
  "compensated_temperature raw_temp avg factor =
     (case ddiv (dsub avg raw_temp) factor of
        Inl e \<Rightarrow> Inl e
      | Inr c \<Rightarrow> Inr (dsub raw_temp c))"

text \<open>A real is a double when rounding leaves it as it is.\<close>

definition is_double :: "real \<Rightarrow> bool" where
  "is_double x = (round_double x = Finite x)"

section \<open>Exporter (enviroplus\_exporter.py)\<close>

text \<open>Sequencing of two statements: an exception of the first skips the second.\<close>

definition and_then ::
  "(error + 'a) \<times> state \<Rightarrow> (state \<Rightarrow> (error + 'b) \<times> state) \<Rightarrow> (error + 'b) \<times> state" where
  "and_then m f = (case m of (Inl e, s) \<Rightarrow> (Inl e, s) | (Inr _, s) \<Rightarrow> f s)"

definition read_temperature :: "pyfactor \<Rightarrow> readings \<Rightarrow> state \<Rightarrow> (error + unit) \<times> state" where
  "read_temperature factor r s =
     (case get_temperature factor r s of
        (Inl e, s') \<Rightarrow> (Inl e, s')
      | (Inr temperature, s') \<Rightarrow> Gauge_set TEMPERATURE (Some temperature) s')"

definition read_pressure :: "readings \<Rightarrow> state \<Rightarrow> (error + unit) \<times> state" where
  "read_pressure r s =
     (case get_pressure r s of
        (Inl e, s') \<Rightarrow> (Inl e, s')
      | (Inr pressure, s') \<Rightarrow> Gauge_set PRESSURE pressure s')"

definition read_humidity :: "readings \<Rightarrow> state \<Rightarrow> (error + unit) \<times> state" where
  "read_humidity r s =
     (case get_humidity r s of
        (Inl e, s') \<Rightarrow> (Inl e, s')
      | (Inr humidity, s') \<Rightarrow> Gauge_set HUMIDITY humidity s')"

text \<open>\<open>readings.oxidising\<close> on \<open>None\<close> raises \<open>AttributeError\<close>.\<close>

definition read_gas :: "readings \<Rightarrow> state \<Rightarrow> (error + unit) \<times> state" where
  "read_gas r s =
     (case get_gas r s of
        (Inl e, s') \<Rightarrow> (Inl e, s')
      | (Inr None, s') \<Rightarrow> (Inl AttributeError, s')
      | (Inr (Some rs), s') \<Rightarrow>
          (Inr (),
           observe NH3_HIST (nh3 rs) (set_value NH3 (nh3 rs)
             (observe REDUCING_HIST (reducing rs) (set_value REDUCING (reducing rs)
               (observe OXIDISING_HIST (oxidising rs) (set_value OXIDISING (oxidising rs) s')))))))"

text \<open>\<open>light["lux"]\<close> on \<open>None\<close> raises \<open>TypeError\<close>.\<close>

definition read_light :: "readings \<Rightarrow> state \<Rightarrow> (error + unit) \<times> state" where
  "read_light r s =
     (case get_light r s of
        (Inl e, s') \<Rightarrow> (Inl e, s')
      | (Inr None, s') \<Rightarrow> (Inl TypeError, s')
      | (Inr (Some light), s') \<Rightarrow>
          (Inr (), set_value PROXIMITY (prox light) (set_value LUX (lux light) s')))"

text \<open>\<open>pms_data.pm_ug_per_m3\<close> on \<open>None\<close> raises \<open>AttributeError\<close>.\<close>

definition read_particulates :: "readings \<Rightarrow> state \<Rightarrow> (error + unit) \<times> state" where
  "read_particulates r s =
     (case get_particulates r s of
        (Inl e, s') \<Rightarrow> (Inl e, s')
      | (Inr None, s') \<Rightarrow> (Inl AttributeError, s')
      | (Inr (Some d), s') \<Rightarrow>
          (Inr (),
           observe PM10_HIST (real_of_int (pm_ug_per_m3 d Size_10 - pm_ug_per_m3 d Size_2_5))
             (observe PM25_HIST (real_of_int (pm_ug_per_m3 d Size_2_5 - pm_ug_per_m3 d Size_1_0))
               (observe PM1_HIST (real_of_int (pm_ug_per_m3 d Size_1_0))
                 (set_value PM10 (real_of_int (pm_ug_per_m3 d Size_10))
                   (set_value PM25 (real_of_int (pm_ug_per_m3 d Size_2_5))
                     (set_value PM1 (real_of_int (pm_ug_per_m3 d Size_1_0)) s')))))))"

subsection \<open>The poll loop\<close>

text \<open>
  One iteration of the \<open>while True\<close> loop of the main block. \<open>enviro\<close> is
  \<open>args.enviro\<close>: \<open>None\<close> when the flag is omitted; \<open>not args.enviro\<close> is false
  only for \<open>True\<close>.
\<close>

definition poll_iteration ::
  "pyfactor \<Rightarrow> bool option \<Rightarrow> bool \<Rightarrow> readings \<Rightarrow> state \<Rightarrow> (error + unit) \<times> state" where
  "poll_iteration factor enviro DEBUG r s =
     and_then
       (and_then
          (and_then
             (and_then
                (and_then (read_temperature factor r s) (read_pressure r))
                (read_humidity r))
             (read_light r))
          (\<lambda>s'. if enviro = Some True then (Inr (), s')
                else and_then (read_gas r s') (read_particulates r)))
       (\<lambda>s'. if DEBUG then (Inr (), logging_at INFO ''Sensor data: {}'' s') else (Inr (), s'))"

text \<open>
  The loop has no exit of its own: it ends only when an iteration raises. The list holds
  what the hardware answers in each successive iteration; the result is the exception
  that ended the loop, or \<open>None\<close> when it is still running after the last of them.
\<close>

fun poll_loop ::
  "pyfactor \<Rightarrow> bool option \<Rightarrow> bool \<Rightarrow> readings list \<Rightarrow> state \<Rightarrow> error option \<times> state" where
  "poll_loop factor enviro DEBUG [] s = (None, s)"
| "poll_loop factor enviro DEBUG (r # rs) s =
     (case poll_iteration factor enviro DEBUG r s of
        (Inl e, s') \<Rightarrow> (Some e, s')
      | (Inr _, s') \<Rightarrow> poll_loop factor enviro DEBUG rs s')"

subsection \<open>Choice of the compensation factor\<close>

text \<open>Python's \<open>a or b\<close> on factor values.\<close>

definition py_or :: "pyfactor \<Rightarrow> pyfactor \<Rightarrow> pyfactor" where
  "py_or a b = (if truthy a then a else b)"

text \<open>
  \<open>ENVIROPLUS_FACTOR = float(os.getenv('ENVIROPLUS_FACTOR', 0)) or False\<close>. The builtin
  \<open>float\<close> on strings is a parameter (\<open>None\<close> where it raises \<open>ValueError\<close>); an unset
  variable gives \<open>float(0)\<close>.
\<close>

definition ENVIROPLUS_FACTOR :: "(string \<Rightarrow> real option) \<Rightarrow> string option \<Rightarrow> error + pyfactor" where
  "ENVIROPLUS_FACTOR py_float getenv =
     (case (case getenv of None \<Rightarrow> Some 0 | Some v \<Rightarrow> py_float v) of
        None \<Rightarrow> Inl ValueError
      | Some x \<Rightarrow> Inr (py_or (PyFloat x) PyFalse))"

text \<open>
  \<open>factor = args.factor or ENVIROPLUS_FACTOR\<close>, where \<open>args.factor\<close> is \<open>None\<close> when
  the flag is omitted.
\<close>

definition main_factor :: "real option \<Rightarrow> pyfactor \<Rightarrow> pyfactor" where
  "main_factor args_factor env_factor =
     py_or (case args_factor of None \<Rightarrow> PyNone | Some x \<Rightarrow> PyFloat x) env_factor"

subsection \<open>Forwarder to the aggregation service\<close>

text \<open>
  \<open>collect_all_data\<close>: the dictionary of the gauges' current values, in insertion
  order. The forwarder runs on its own thread, so the gauge values it sees are an input
  of each of its cycles.
\<close>

definition collect_all_data :: "(gauge \<Rightarrow> real) \<Rightarrow> (string \<times> real) list" where
  "collect_all_data g =
     [(''temperature'', g TEMPERATURE), (''humidity'', g HUMIDITY), (''pressure'', g PRESSURE),
      (''oxidising'', g OXIDISING), (''reducing'', g REDUCING), (''nh3'', g NH3),
      (''lux'', g LUX), (''proximity'', g PROXIMITY),
      (''pm1'', g PM1), (''pm25'', g PM25), (''pm10'', g PM10)]"

text \<open>Subscripting a dictionary: a missing key raises \<open>KeyError\<close>.\<close>

definition getitem :: "(string \<times> 'a) list \<Rightarrow> string \<Rightarrow> error + 'a" where
  "getitem d k = (case map_of d k of None \<Rightarrow> Inl KeyError | Some v \<Rightarrow> Inr v)"

definition startswith :: "string \<Rightarrow> string \<Rightarrow> bool" where
  "startswith s p = (take (length p) s = p)"

text \<open>\<open>line.split(":")\<close>: the pieces between the separators, at least one.\<close>

fun split_on :: "char \<Rightarrow> string \<Rightarrow> string list" where
  "split_on c [] = [[]]"
| "split_on c (x # xs) =
     (if x = c then [] # split_on c xs
      else (case split_on c xs of [] \<Rightarrow> [[x]] | w # ws \<Rightarrow> (x # w) # ws))"

text \<open>\<open>str.strip()\<close> removes leading and trailing white space (the ASCII part of it).\<close>

definition isspace :: "char \<Rightarrow> bool" where
  "isspace c = (c \<in> set [CHR '' '', CHR 0x09, CHR 0x0A, CHR 0x0B, CHR 0x0C, CHR 0x0D,
                          CHR 0x1C, CHR 0x1D, CHR 0x1E, CHR 0x1F])"

definition strip :: "string \<Rightarrow> string" where
  "strip s = rev (dropWhile isspace (rev (dropWhile isspace s)))"

text \<open>
  \<open>get_serial_number\<close> over the lines of \<open>/proc/cpuinfo\<close>: the first line that starts
  with \<open>Serial\<close> decides; without one the function falls off its end and returns
  \<open>None\<close>. Such a line without a colon makes \<open>[1]\<close> raise \<open>IndexError\<close>.
\<close>

fun get_serial_number :: "string list \<Rightarrow> error + string option" where
  "get_serial_number [] = Inr None"
| "get_serial_number (line # rest) =
     (if take 6 line = ''Serial'' then
        (case split_on CHR '':'' line of
           a # b # _ \<Rightarrow> Inr (Some (strip b))
         | _ \<Rightarrow> Inl IndexError)
      else get_serial_number rest)"

text \<open>
  What \<open>requests.post\<close> does in one call: it raises, or it returns a response whose
  \<open>ok\<close> attribute is the boolean.
\<close>

datatype post_outcome = Response bool | Raises

definition requests_post ::
  "http_request \<Rightarrow> post_outcome \<Rightarrow> state \<Rightarrow> (error + bool) \<times> state" where
  "requests_post req out s =
     (let s' = s\<lparr>http_posts := http_posts s @ [req]\<rparr> in
      case out of Raises \<Rightarrow> (Inl OtherError, s') | Response ok \<Rightarrow> (Inr ok, s'))"

text \<open>The request both POSTs of \<open>post_to_luftdaten\<close> build, for a pin and a payload.\<close>

definition luftdaten_request ::
  "string \<Rightarrow> string \<Rightarrow> (string \<times> json_value) list \<Rightarrow> http_request" where
  "luftdaten_request pin uid vals =
     \<lparr>url = ''https://api.luftdaten.info/v1/push-sensor-data/'',
      software_version = ''enviro-plus 0.0.1'',
      sensordatavalues = vals,
      headers = [(''X-PIN'', pin), (''X-Sensor'', uid),
                 (''Content-Type'', ''application/json''), (''cache-control'', ''no-cache'')]\<rparr>"

text \<open>The dictionary \<open>values\<close> of one push, in insertion order.\<close>

definition luftdaten_values :: "(string \<times> real) list \<Rightarrow> error + (string \<times> json_value) list" where
  "luftdaten_values sensor_data =
     (case getitem sensor_data ''pm25'' of Inl e \<Rightarrow> Inl e | Inr pm25 \<Rightarrow>
       (case getitem sensor_data ''pm10'' of Inl e \<Rightarrow> Inl e | Inr pm10 \<Rightarrow>
         (case getitem sensor_data ''temperature'' of Inl e \<Rightarrow> Inl e | Inr t \<Rightarrow>
           (case getitem sensor_data ''pressure'' of Inl e \<Rightarrow> Inl e | Inr p \<Rightarrow>
             (case getitem sensor_data ''humidity'' of Inl e \<Rightarrow> Inl e | Inr h \<Rightarrow>
                Inr [(''P2'', JFloat pm25), (''P1'', JFloat pm10),
                     (''temperature'', JFormat2f t), (''pressure'', JFormat2f (p * 100)),
                     (''humidity'', JFormat2f h)])))))"

text \<open>
  The body of the forwarder's loop after its sleep. Both POSTs stand in one \<open>try\<close>
  block whose handler catches every exception and logs a warning.
\<close>

definition luftdaten_push ::
  "bool \<Rightarrow> string \<Rightarrow> (gauge \<Rightarrow> real) \<Rightarrow> post_outcome \<Rightarrow> post_outcome \<Rightarrow> state
     \<Rightarrow> (error + unit) \<times> state" where
  "luftdaten_push DEBUG uid g out_1 out_11 s =
     (case luftdaten_values (collect_all_data g) of
        Inl e \<Rightarrow> (Inl e, s)
      | Inr vals \<Rightarrow>
          (let pm_values = filter (\<lambda>i. startswith (fst i) ''P'') vals;
               temperature_values = filter (\<lambda>i. \<not> startswith (fst i) ''P'') vals in
           case requests_post (luftdaten_request ''1'' uid pm_values) out_1 s of
             (Inl e, s1) \<Rightarrow>
               (Inr (), logging_at WARNING ''Exception sending to Luftdaten: {}'' s1)
           | (Inr ok_1, s1) \<Rightarrow>
               (case requests_post (luftdaten_request ''11'' uid temperature_values) out_11 s1 of
                  (Inl e, s2) \<Rightarrow>
                    (Inr (), logging_at WARNING ''Exception sending to Luftdaten: {}'' s2)
                | (Inr ok_11, s2) \<Rightarrow>
                    if ok_1 \<and> ok_11 then
                      (if DEBUG then (Inr (), logging_at INFO ''Luftdaten response: OK'' s2)
                       else (Inr (), s2))
                    else (Inr (), logging_at WARNING ''Luftdaten response: Failed'' s2))))"

text \<open>
  The forwarder's loop, one list element per cycle: the gauge values at that time and
  the outcomes of the two POSTs. \<open>time.sleep\<close> raises \<open>ValueError\<close> on a negative
  interval.
\<close>

fun luftdaten_loop ::
  "bool \<Rightarrow> int \<Rightarrow> string \<Rightarrow> ((gauge \<Rightarrow> real) \<times> post_outcome \<times> post_outcome) list \<Rightarrow> state
     \<Rightarrow> error option \<times> state" where
  "luftdaten_loop DEBUG interval uid [] s = (None, s)"
| "luftdaten_loop DEBUG interval uid ((g, out_1, out_11) # cs) s =
     (if interval < 0 then (Some ValueError, s)
      else
        (case luftdaten_push DEBUG uid g out_1 out_11 (s\<lparr>slept := slept s + nat interval\<rparr>) of
           (Inl e, s') \<Rightarrow> (Some e, s')
         | (Inr _, s') \<Rightarrow> luftdaten_loop DEBUG interval uid cs s'))"

text \<open>
  \<open>post_to_luftdaten\<close>: the device UID is computed once, before the loop;
  \<open>'raspi-' + None\<close> raises \<open>TypeError\<close>.
\<close>

definition post_to_luftdaten ::
  "bool \<Rightarrow> int \<Rightarrow> string list \<Rightarrow> ((gauge \<Rightarrow> real) \<times> post_outcome \<times> post_outcome) list \<Rightarrow> state
     \<Rightarrow> error option \<times> state" where
  "post_to_luftdaten DEBUG interval cpuinfo cycles s =
     (case get_serial_number cpuinfo of
        Inl e \<Rightarrow> (Some e, s)
      | Inr None \<Rightarrow> (Some TypeError, s)
      | Inr (Some serial) \<Rightarrow> luftdaten_loop DEBUG interval (''raspi-'' @ serial) cycles s)"

section \<open>Concrete inputs\<close>

text \<open>An iteration in which every sensor answers.\<close>

definition nominal_readings :: readings where
  "nominal_readings =
     \<lparr>bme_temperature = Inr 20, cpu_first = Inr 50000, cpu_second = Inr 52000,
      bme_pressure = Inr 1000, bme_humidity = Inr 40, ltr_lux = Inr 10, ltr_proximity = Inr 3,
      gas_all = Inr \<lparr>oxidising = 1, reducing = 2, nh3 = 3\<rparr>,
      pms_read = Inr \<lparr>pm1_0 = 1, pm2_5 = 3, pm10_0 = 7\<rparr>\<rparr>"

text \<open>
  Five consecutive calls during which the thermal zone reads 1, 2, ..., 10 degrees, two
  reads per call.
\<close>

definition five_calls :: "readings list" where
  "five_calls =
     map (\<lambda>k. nominal_readings\<lparr>cpu_first := Inr ((2 * k + 1) * 1000),
                                 cpu_second := Inr ((2 * k + 2) * 1000)\<rparr>) [0, 1, 2, 3, 4]"

text \<open>A stand-in for the builtin \<open>float\<close> that knows two literals.\<close>

definition float_of_literal :: "string \<Rightarrow> real option" where
  "float_of_literal v =
     (if v = ''0'' then Some 0 else if v = ''1.5'' then Some (3 / 2) else None)"

text \<open>The lines of a \<open>/proc/cpuinfo\<close> with a serial number.\<close>

definition cpuinfo_lines :: "string list" where
  "cpuinfo_lines =
     [''processor : 0'', ''Hardware : BCM2835'', ''Serial  : 10000000abcdef12 '',
      ''Model : Raspberry Pi'']"

text \<open>The accessors and driver calls of the gas and particulate sensors.\<close>

definition gas_or_particulates :: "accessor \<Rightarrow> bool" where
  "gas_or_particulates a = (a = Get_gas \<or> a = Get_particulates)"

definition gas_or_pms :: "driver \<Rightarrow> bool" where
  "gas_or_pms d = (d = GAS_read_all \<or> d = PMS5003_read)"

section \<open>Properties of the sensor access layer\<close>

lemmas effect_defs =
  logging_at_def reset_i2c_def called_def driver_call_def set_value_def observe_def
  except_IOError_def Gauge_set_def

lemma cpu_temps_eq: "cpu_temps a b = [a, a, a, a, b]"
  by (simp add: cpu_temps_def numeral_eq_Suc)

lemma avg_cpu_temp_window: "avg_cpu_temp (cpu_temps a b) = (4 * a + b) / 5"
  by (simp add: cpu_temps_eq avg_cpu_temp_def)

text \<open>
  Claim C1. When the bus raises \<open>IOError\<close> during a pressure, humidity, gas or light
  read, the accessor appends exactly one error-level entry to the log, resets the bus
  exactly once and makes no second driver call; every field of the state that is not
  listed, the gauges and histograms among them, is as before, so the gauge keeps the
  value it had. The accessor's \<open>None\<close> then makes the exporter's \<open>read_\<close> function
  raise (\<open>TypeError\<close> or \<open>AttributeError\<close>) before any gauge is written.
\<close>

theorem bus_failure_logged_reset_gauge_kept:
  "read_pressure (r\<lparr>bme_pressure := Inl IOError\<rparr>) s =
     (Inl TypeError,
      s\<lparr>logged := logged s @ [(ERROR, ''Could not get pressure readings. Resetting i2c.'')],
        i2c_resets := Suc (i2c_resets s), slept := slept s + 2,
        api_calls := api_calls s @ [Get_pressure],
        driver_calls := driver_calls s @ [BME280_get_pressure]\<rparr>)
   \<and> read_humidity (r\<lparr>bme_humidity := Inl IOError\<rparr>) s =
     (Inl TypeError,
      s\<lparr>logged := logged s @ [(ERROR, ''Could not get humidity readings. Resetting i2c.'')],
        i2c_resets := Suc (i2c_resets s), slept := slept s + 2,
        api_calls := api_calls s @ [Get_humidity],
        driver_calls := driver_calls s @ [BME280_get_humidity]\<rparr>)
   \<and> read_gas (r\<lparr>gas_all := Inl IOError\<rparr>) s =
     (Inl AttributeError,
      s\<lparr>logged := logged s @ [(ERROR, ''Could not get gas readings. Resetting i2c.'')],
        i2c_resets := Suc (i2c_resets s), slept := slept s + 2,
        api_calls := api_calls s @ [Get_gas],
        driver_calls := driver_calls s @ [GAS_read_all]\<rparr>)
   \<and> read_light (r\<lparr>ltr_lux := Inl IOError\<rparr>) s =
     (Inl TypeError,
      s\<lparr>logged := logged s @
          [(ERROR, ''Could not get lux and proximity readings. Resetting i2c.'')],
        i2c_resets := Suc (i2c_resets s), slept := slept s + 2,
        api_calls := api_calls s @ [Get_light],
        driver_calls := driver_calls s @ [LTR559_get_lux]\<rparr>)
   \<and> read_light (r\<lparr>ltr_lux := Inr l, ltr_proximity := Inl IOError\<rparr>) s =
     (Inl TypeError,
      s\<lparr>logged := logged s @
          [(ERROR, ''Could not get lux and proximity readings. Resetting i2c.'')],
        i2c_resets := Suc (i2c_resets s), slept := slept s + 2,
        api_calls := api_calls s @ [Get_light],
        driver_calls := driver_calls s @ [LTR559_get_lux, LTR559_get_proximity]\<rparr>)"
  by (simp add: read_pressure_def read_humidity_def read_gas_def read_light_def
      get_pressure_def get_humidity_def get_gas_def get_light_def effect_defs)

text \<open>
  Claim C8. A particulate read that ends in a read-timeout makes \<open>get_particulates\<close>
  log exactly one warning, leave the reset counter alone and return \<open>None\<close>; over all
  outcomes of the read, the bus is reset (once) exactly when the outcome is \<open>IOError\<close>.
\<close>

theorem particulate_timeout_warns_without_reset:
  "get_particulates (r\<lparr>pms_read := Inl ReadTimeoutError\<rparr>) s =
     (Inr None,
      s\<lparr>logged := logged s @ [(WARNING, ''Failed to read PMS5003'')],
        api_calls := api_calls s @ [Get_particulates],
        driver_calls := driver_calls s @ [PMS5003_read]\<rparr>)
   \<and> i2c_resets (snd (get_particulates (r\<lparr>pms_read := Inl ReadTimeoutError\<rparr>) s)) =
       i2c_resets s
   \<and> i2c_resets (snd (get_particulates r s)) =
       (if pms_read r = Inl IOError then Suc (i2c_resets s) else i2c_resets s)"
  by (cases "pms_read r") (auto simp add: get_particulates_def effect_defs Let_def)

text \<open>
  Claim C6. For a successful particulate sample the gauges PM1, PM25 and PM10 are set to
  the three masses as read, while the histograms observe the PM1 mass, the PM2.5 mass
  less the PM1 mass, and the PM10 mass less the PM2.5 mass; nothing else is written.
\<close>

theorem particulates_gauges_cumulative_histograms_banded:
  "read_particulates (r\<lparr>pms_read := Inr d\<rparr>) s =
     (Inr (),
      s\<lparr>gauges := (gauges s)(PM1 := real_of_int (pm1_0 d), PM25 := real_of_int (pm2_5 d),
                               PM10 := real_of_int (pm10_0 d)),
        hists := (hists s)
          (PM1_HIST := hists s PM1_HIST @ [real_of_int (pm1_0 d)],
           PM25_HIST := hists s PM25_HIST @ [real_of_int (pm2_5 d) - real_of_int (pm1_0 d)],
           PM10_HIST := hists s PM10_HIST @ [real_of_int (pm10_0 d) - real_of_int (pm2_5 d)]),
        api_calls := api_calls s @ [Get_particulates],
        driver_calls := driver_calls s @ [PMS5003_read]\<rparr>)"
  by (simp add: read_particulates_def get_particulates_def effect_defs)

section \<open>Properties of the temperature compensation\<close>

text \<open>
  Claim C3. For a positive factor, when the sensor and both thermal-zone reads answer,
  \<open>get_temperature\<close> returns \<open>raw - ((mean - raw) / factor)\<close>, where \<open>mean\<close> is
  the sum of the call's five-element window divided by five.
\<close>

theorem get_temperature_compensation_formula:
  assumes "0 < factor"
  shows "window_of_call (PyFloat factor)
           (r\<lparr>bme_temperature := Inr raw, cpu_first := Inr a, cpu_second := Inr b\<rparr>) =
           Some (cpu_temps (real_of_int a / 1000) (real_of_int b / 1000))
       \<and> length (cpu_temps (real_of_int a / 1000) (real_of_int b / 1000)) = 5
       \<and> fst (get_temperature (PyFloat factor)
           (r\<lparr>bme_temperature := Inr raw, cpu_first := Inr a, cpu_second := Inr b\<rparr>) s) =
           Inr (raw - ((sum_list (cpu_temps (real_of_int a / 1000) (real_of_int b / 1000)) / 5
                        - raw) / factor))"
  using assms
  by (simp add: window_of_call_def get_temperature_def get_cpu_temperature_def
      avg_cpu_temp_def cpu_temps_eq)

theorem get_temperature_compensation_formula_witness:
  "(0::real) < 2
   \<and> fst (get_temperature (PyFloat 2)
        (nominal_readings\<lparr>bme_temperature := Inr 20, cpu_first := Inr 50000,
                           cpu_second := Inr 52000\<rparr>) initial_state) = Inr (24 / 5)"
  using get_temperature_compensation_formula
    [where factor = 2 and r = nominal_readings and raw = 20 and a = 50000 and b = 52000
       and s = initial_state]
  by (simp add: cpu_temps_eq)

text \<open>
  Claim C4. With a factor of 0, \<open>False\<close> or \<open>None\<close>, \<open>get_temperature\<close> returns
  the raw sensor temperature unchanged, and the thermal zone is not read.
\<close>

theorem get_temperature_falsy_factor_raw:
  "get_temperature (PyFloat 0) (r\<lparr>bme_temperature := Inr raw\<rparr>) s =
     (Inr raw, driver_call BME280_get_temperature (called Get_temperature s))
   \<and> get_temperature PyFalse (r\<lparr>bme_temperature := Inr raw\<rparr>) s =
     (Inr raw, driver_call BME280_get_temperature (called Get_temperature s))
   \<and> get_temperature PyNone (r\<lparr>bme_temperature := Inr raw\<rparr>) s =
     (Inr raw, driver_call BME280_get_temperature (called Get_temperature s))"
  by (simp add: get_temperature_def)

section \<open>Properties of line 58 in double arithmetic\<close>

lemma ilog2_bounds:
  "0 < x \<Longrightarrow> 2 powi (ilog2 x) \<le> x \<and> x < 2 powi (ilog2 x + 1)"
proof (induction x rule: ilog2.induct)
  case (1 x)
  show ?case
  proof (cases "2 \<le> x")
    case True
    then have e: "ilog2 x = ilog2 (x / 2) + 1" using 1(3) by (subst ilog2.simps) simp
    have "2 powi (ilog2 (x / 2)) \<le> x / 2 \<and> x / 2 < 2 powi (ilog2 (x / 2) + 1)"
      using 1(1) True 1(3) by simp
    then show ?thesis unfolding e by (simp add: power_int_add)
  next
    case False
    show ?thesis
    proof (cases "x < 1")
      case True
      then have e: "ilog2 x = ilog2 (2 * x) - 1" using False 1(3) by (subst ilog2.simps) simp
      have "2 powi (ilog2 (2 * x)) \<le> 2 * x \<and> 2 * x < 2 powi (ilog2 (2 * x) + 1)"
        using 1(2) True False 1(3) by simp
      then show ?thesis unfolding e by (simp add: power_int_add power_int_diff)
    next
      case nl: False
      then have e: "ilog2 x = 0" using False 1(3) by (subst ilog2.simps) simp
      show ?thesis unfolding e using False nl by simp
    qed
  qed
qed

lemma ilog2_unique:
  assumes "0 < x" and "2 powi e \<le> x" and "x < 2 powi (e + 1)"
  shows "ilog2 x = e"
proof -
  have b: "2 powi (ilog2 x) \<le> x" "x < 2 powi (ilog2 x + 1)"
    using ilog2_bounds [OF assms(1)] by simp_all
  have "(2::real) powi e < 2 powi (ilog2 x + 1)" using assms(2) b(2) by linarith
  then have "e < ilog2 x + 1"
    by (metis less_le_not_le linorder_not_less one_le_numeral power_int_increasing)
  moreover have "(2::real) powi (ilog2 x) < 2 powi (e + 1)" using assms(3) b(1) by linarith
  then have "ilog2 x < e + 1"
    by (metis less_le_not_le linorder_not_less one_le_numeral power_int_increasing)
  ultimately show ?thesis by simp
qed

lemma ilog2_mono:
  assumes "0 < x" and "x \<le> y"
  shows "ilog2 x \<le> ilog2 y"
proof -
  have "(2::real) powi (ilog2 x) \<le> x" using ilog2_bounds assms(1) by simp
  moreover have "y < 2 powi (ilog2 y + 1)" using ilog2_bounds assms by simp
  ultimately have "(2::real) powi (ilog2 x) < 2 powi (ilog2 y + 1)" using assms(2) by linarith
  then have "ilog2 x < ilog2 y + 1"
    by (metis less_le_not_le linorder_not_less one_le_numeral power_int_increasing)
  then show ?thesis by simp
qed

lemma round_half_even_int [simp]: "round_half_even (of_int n) = n"
  by (simp add: round_half_even_def)

lemma round_half_even_mono:
  assumes "x \<le> y"
  shows "round_half_even x \<le> round_half_even y"
proof (cases "\<lfloor>x\<rfloor> = \<lfloor>y\<rfloor>")
  case True
  then show ?thesis using assms by (auto simp add: round_half_even_def Let_def)
next
  case False
  then have "\<lfloor>x\<rfloor> < \<lfloor>y\<rfloor>" using assms floor_mono [of x y] by linarith
  moreover have "round_half_even x \<le> \<lfloor>x\<rfloor> + 1" by (simp add: round_half_even_def Let_def)
  moreover have "\<lfloor>y\<rfloor> \<le> round_half_even y" by (simp add: round_half_even_def Let_def)
  ultimately show ?thesis by linarith
qed

lemma pow2_split: "(2::real) powi (a + b) = 2 powi a * 2 powi b"
  by (rule power_int_add) simp

lemma quantum_pos: "0 < quantum x"
  by (simp add: quantum_def)

lemma round_magnitude_nonneg:
  assumes "0 < x" shows "0 \<le> round_magnitude x"
proof -
  have "0 \<le> x / quantum x" using assms quantum_pos [of x] by simp
  then have "round_half_even 0 \<le> round_half_even (x / quantum x)"
    by (rule round_half_even_mono)
  moreover have "round_half_even 0 = 0" using round_half_even_int [of 0] by simp
  ultimately show ?thesis using quantum_pos [of x] unfolding round_magnitude_def by simp
qed

lemma round_magnitude_upper:
  assumes "0 < x"
  shows "round_magnitude x \<le> 2 powi (max (ilog2 x) (- 1022) + 1)"
proof -
  let ?E = "max (ilog2 x) (- 1022)"
  have q: "quantum x = 2 powi (?E - 52)" by (simp add: quantum_def)
  have "x < 2 powi (ilog2 x + 1)" using ilog2_bounds assms by simp
  also have "\<dots> \<le> 2 powi (?E + 1)" by (intro power_int_increasing) simp_all
  finally have "x < 2 powi (?E + 1)" .
  moreover have s: "?E + 1 = 53 + (?E - 52)" by simp
  have "(2::real) powi (?E + 1) = 2 powi 53 * quantum x"
    unfolding q by (subst s) (rule pow2_split)
  ultimately have "x / quantum x \<le> 2 powi 53"
    using quantum_pos [of x] \<open>(2::real) powi (?E + 1) = 2 powi 53 * quantum x\<close>
    by (simp add: pos_divide_le_eq)
  moreover have "(2::real) powi 53 = of_int (2 ^ 53)" by simp
  ultimately have "round_half_even (x / quantum x) \<le> round_half_even (of_int (2 ^ 53))"
    using round_half_even_mono by metis
  then have "round_half_even (x / quantum x) \<le> 2 ^ 53" by (simp only: round_half_even_int)
  then have "real_of_int (round_half_even (x / quantum x)) \<le> 2 powi 53"
    by (metis \<open>(2::real) powi 53 = of_int (2 ^ 53)\<close> of_int_le_iff)
  then have "round_magnitude x \<le> 2 powi 53 * quantum x"
    unfolding round_magnitude_def using quantum_pos [of x] by simp
  then show ?thesis using \<open>(2::real) powi (?E + 1) = 2 powi 53 * quantum x\<close> by simp
qed

lemma round_magnitude_lower:
  assumes "0 < x" and "- 1022 \<le> ilog2 x"
  shows "2 powi (ilog2 x) \<le> round_magnitude x"
proof -
  have q: "quantum x = 2 powi (ilog2 x - 52)" using assms(2) by (simp add: quantum_def max_def)
  have s: "ilog2 x = 52 + (ilog2 x - 52)" by simp
  have e: "(2::real) powi (ilog2 x) = 2 powi 52 * quantum x"
    unfolding q by (subst s) (rule pow2_split)
  have "2 powi (ilog2 x) \<le> x" using ilog2_bounds assms by simp
  then have "2 powi 52 \<le> x / quantum x"
    using quantum_pos [of x] e by (simp add: pos_le_divide_eq)
  moreover have p: "(2::real) powi 52 = of_int (2 ^ 52)" by simp
  ultimately have "round_half_even (of_int (2 ^ 52)) \<le> round_half_even (x / quantum x)"
    using round_half_even_mono by metis
  then have "2 ^ 52 \<le> round_half_even (x / quantum x)" by (simp only: round_half_even_int)
  then have "2 powi 52 \<le> real_of_int (round_half_even (x / quantum x))"
    by (metis p of_int_le_iff)
  then have "2 powi 52 * quantum x \<le> round_magnitude x"
    unfolding round_magnitude_def using quantum_pos [of x] by simp
  then show ?thesis using e by simp
qed

lemma round_magnitude_mono:
  assumes "0 < x" and "x \<le> y"
  shows "round_magnitude x \<le> round_magnitude y"
proof -
  let ?Ex = "max (ilog2 x) (- 1022)" and ?Ey = "max (ilog2 y) (- 1022)"
  have y: "0 < y" using assms by simp
  have le: "?Ex \<le> ?Ey" using ilog2_mono [OF assms] by simp
  show ?thesis
  proof (cases "?Ex = ?Ey")
    case True
    then have q: "quantum x = quantum y" by (simp add: quantum_def)
    have "x / quantum y \<le> y / quantum y"
      using assms(2) quantum_pos [of y] by (simp add: divide_right_mono)
    then have "round_half_even (x / quantum y) \<le> round_half_even (y / quantum y)"
      by (rule round_half_even_mono)
    then show ?thesis
      unfolding round_magnitude_def q using quantum_pos [of y] by simp
  next
    case False
    then have lt: "?Ex < ?Ey" using le by linarith
    then have ey: "?Ey = ilog2 y" "- 1022 \<le> ilog2 y" by linarith+
    have "round_magnitude x \<le> 2 powi (?Ex + 1)" using round_magnitude_upper assms(1) by simp
    also have "\<dots> \<le> 2 powi (ilog2 y)"
    proof (rule power_int_increasing)
      show "?Ex + 1 \<le> ilog2 y" using lt ey(1) by linarith
    qed simp
    also have "\<dots> \<le> round_magnitude y" using round_magnitude_lower [OF y ey(2)] .
    finally show ?thesis .
  qed
qed

lemma round_double_mono:
  assumes "x \<le> y"
  shows "dle (round_double x) (round_double y)"
proof -
  consider "0 < x" | "x = 0" | "x < 0" "y < 0" | "x < 0" "0 \<le> y" by linarith
  then show ?thesis
  proof cases
    case 1
    then have "round_magnitude x \<le> round_magnitude y" using assms round_magnitude_mono by simp
    then show ?thesis using 1 assms by (simp add: round_double_def)
  next
    case 2
    then show ?thesis using assms round_magnitude_nonneg [of y]
      by (cases "y = 0") (simp_all add: round_double_def)
  next
    case 3
    then have "round_magnitude (- y) \<le> round_magnitude (- x)"
      using assms round_magnitude_mono [of "- y" "- x"] by simp
    then show ?thesis using 3 by (simp add: round_double_def)
  next
    case 4
    then show ?thesis
      using round_magnitude_nonneg [of y] round_magnitude_nonneg [of "- x"]
      by (cases "y = 0") (simp_all add: round_double_def)
  qed
qed

lemma round_double_nonneg: "0 \<le> x \<Longrightarrow> dle (Finite 0) (round_double x)"
  using round_double_mono [of 0 x] by (simp add: round_double_def)

lemma round_double_not_NaN: "round_double x \<noteq> NaN"
  by (simp add: round_double_def)

lemma round_double_pos_not_MinusInf: "0 \<le> x \<Longrightarrow> round_double x \<noteq> MinusInf"
  by (simp add: round_double_def)

text \<open>Subtracting a nonnegative double (or plus infinity): the result is below raw, monotone.\<close>

lemma dsub_antimono:
  assumes "dle (Finite 0) c2" and "dle c2 c1"
  shows "dle (dsub (Finite raw) c1) (dsub (Finite raw) c2)"
proof (cases c2)
  case (Finite y2)
  show ?thesis
  proof (cases c1)
    case (Finite y1)
    then have "raw - y1 \<le> raw - y2" using assms(2) \<open>c2 = Finite y2\<close> by simp
    then show ?thesis using Finite \<open>c2 = Finite y2\<close> round_double_mono by simp
  next
    case PlusInf
    then show ?thesis using \<open>c2 = Finite y2\<close> round_double_not_NaN [of "raw - y2"]
      by (cases "round_double (raw - y2)") simp_all
  next
    case MinusInf
    then show ?thesis using assms(2) \<open>c2 = Finite y2\<close> by simp
  next
    case NaN
    then show ?thesis using assms(2) \<open>c2 = Finite y2\<close> by simp
  qed
next
  case PlusInf
  then show ?thesis using assms(2) by (cases c1) simp_all
next
  case MinusInf
  then show ?thesis using assms(1) by simp
next
  case NaN
  then show ?thesis using assms(1) by simp
qed

lemma dsub_below_raw:
  assumes "is_double raw" and "dle (Finite 0) c"
  shows "dle (dsub (Finite raw) c) (Finite raw)"
proof (cases c)
  case (Finite y)
  then have "raw - y \<le> raw" using assms(2) by simp
  then have "dle (round_double (raw - y)) (round_double raw)" by (rule round_double_mono)
  then show ?thesis using Finite assms(1) by (simp add: is_double_def)
next
  case PlusInf then show ?thesis by simp
next
  case MinusInf then show ?thesis using assms(2) by simp
next
  case NaN then show ?thesis using assms(2) by simp
qed

lemma compensated_temperature_exact:
  assumes "f \<noteq> 0" and "is_double (avg - raw)" and "is_double ((avg - raw) / f)"
    and "is_double (raw - (avg - raw) / f)"
  shows "compensated_temperature (Finite raw) (Finite avg) (Finite f) =
           Inr (Finite (raw - (avg - raw) / f))"
  using assms by (simp add: compensated_temperature_def is_double_def)

text \<open>
  Claim C5, as amended. For a raw temperature that is a double, an average CPU
  temperature above it and finite factors \<open>0 < f1 < f2\<close>, line 58 returns under both
  factors, and the value returned under \<open>f2\<close> lies between the value returned under
  \<open>f1\<close> and the raw temperature: the correction under the larger factor is never the
  larger one. Where none of the three operations rounds, the value returned is the
  exact \<open>raw - ((avg - raw) / factor)\<close>, and the correction under \<open>f2\<close> is then
  strictly the smaller one. Where they round it need not be.
\<close>

theorem larger_factor_no_stronger_correction:
  assumes "is_double raw" and "raw < avg" and "0 < f1" and "f1 < f2"
  shows "\<exists>t1 t2.
      compensated_temperature (Finite raw) (Finite avg) (Finite f1) = Inr t1
    \<and> compensated_temperature (Finite raw) (Finite avg) (Finite f2) = Inr t2
    \<and> dle t1 t2 \<and> dle t2 (Finite raw)
    \<and> (is_double (avg - raw) \<and> is_double ((avg - raw) / f1)
         \<and> is_double (raw - (avg - raw) / f1)
         \<longrightarrow> t1 = Finite (raw - (avg - raw) / f1))
    \<and> (is_double (avg - raw) \<and> is_double ((avg - raw) / f2)
         \<and> is_double (raw - (avg - raw) / f2)
         \<longrightarrow> t2 = Finite (raw - (avg - raw) / f2))
    \<and> (is_double (avg - raw) \<and> is_double ((avg - raw) / f1)
         \<and> is_double (raw - (avg - raw) / f1) \<and> is_double ((avg - raw) / f2)
         \<and> is_double (raw - (avg - raw) / f2)
         \<longrightarrow> \<not> dle t2 t1)"
proof -
  have f2: "0 < f2" using assms by simp
  let ?d = "dsub (Finite avg) (Finite raw)"
  have dpos: "dle (Finite 0) ?d" using assms(2) round_double_nonneg [of "avg - raw"] by simp
  obtain c1 c2 where c: "ddiv ?d (Finite f1) = Inr c1" "ddiv ?d (Finite f2) = Inr c2"
    using assms(3) f2 by (cases ?d) simp_all
  have "dle (Finite 0) c2 \<and> dle c2 c1"
  proof (cases ?d)
    case (Finite d)
    then have d: "0 \<le> d" using dpos by simp
    have c1: "c1 = round_double (d / f1)" and c2: "c2 = round_double (d / f2)"
      using c Finite assms(3) f2 by simp_all
    have "d / f2 \<le> d / f1" using d assms(3,4) by (simp add: frac_le)
    then have "dle c2 c1" unfolding c1 c2 by (rule round_double_mono)
    moreover have "0 \<le> d / f2" using d f2 by simp
    then have "dle (Finite 0) c2" unfolding c2 by (rule round_double_nonneg)
    ultimately show ?thesis by simp
  next
    case PlusInf
    then show ?thesis using c assms(3) f2 by simp
  next
    case MinusInf
    then show ?thesis using dpos by simp
  next
    case NaN
    then show ?thesis using dpos by simp
  qed
  then have order: "dle (dsub (Finite raw) c1) (dsub (Finite raw) c2)"
    "dle (dsub (Finite raw) c2) (Finite raw)"
    using dsub_antimono dsub_below_raw assms(1) by simp_all
  have t1: "compensated_temperature (Finite raw) (Finite avg) (Finite f1) =
      Inr (dsub (Finite raw) c1)"
    and t2: "compensated_temperature (Finite raw) (Finite avg) (Finite f2) =
      Inr (dsub (Finite raw) c2)"
    using c by (simp_all add: compensated_temperature_def)
  have e1: "dsub (Finite raw) c1 = Finite (raw - (avg - raw) / f1)"
    if "is_double (avg - raw)" "is_double ((avg - raw) / f1)"
      "is_double (raw - (avg - raw) / f1)"
    using compensated_temperature_exact [OF _ that] assms(3) t1 by simp
  have e2: "dsub (Finite raw) c2 = Finite (raw - (avg - raw) / f2)"
    if "is_double (avg - raw)" "is_double ((avg - raw) / f2)"
      "is_double (raw - (avg - raw) / f2)"
    using compensated_temperature_exact [OF _ that] f2 t2 by simp
  have strict: "(avg - raw) / f2 < (avg - raw) / f1"
    using assms(2,3,4) by (simp add: frac_less2)
  show ?thesis
    using t1 t2 order e1 e2 strict by auto
qed

text \<open>Rounding a positive real whose binade is known.\<close>

lemma round_double_binade:
  assumes "2 powi e \<le> x" and "x < 2 powi (e + 1)" and "- 1022 \<le> e" and "e < 1023"
    and "round_half_even (x / 2 powi (e - 52)) = n"
  shows "round_double x = Finite (of_int n * 2 powi (e - 52))"
proof -
  have "(0::real) < 2 powi e" by simp
  then have x: "0 < x" using assms(1) by linarith
  have e: "ilog2 x = e" using ilog2_unique [OF x assms(1,2)] .
  have q: "quantum x = 2 powi (e - 52)" using e assms(3) by (simp add: quantum_def max_def)
  have m: "round_magnitude x = of_int n * 2 powi (e - 52)"
    by (simp add: round_magnitude_def q assms(5))
  have "round_magnitude x \<le> 2 powi (e + 1)"
    using round_magnitude_upper [OF x] e assms(3) by (simp add: max_def)
  also have "\<dots> < 2 powi 1024"
    using assms(4) by (intro power_int_strict_increasing) simp_all
  finally show ?thesis using x m by (simp add: round_double_def)
qed

lemma is_double_binade:
  assumes "2 powi e \<le> x" and "x < 2 powi (e + 1)" and "- 1022 \<le> e" and "e < 1023"
    and "x / 2 powi (e - 52) = of_int n"
  shows "is_double x"
proof -
  have "round_half_even (x / 2 powi (e - 52)) = n" using assms(5) by simp
  moreover have "of_int n * 2 powi (e - 52) = x"
    using assms(5) by (simp add: field_simps)
  ultimately show ?thesis
    using round_double_binade [OF assms(1-4)] by (simp add: is_double_def)
qed

lemma dle_antisym_Finite: "dle (Finite a) t \<Longrightarrow> dle t (Finite a) \<Longrightarrow> t = Finite a"
  by (cases t) simp_all

lemma is_double_20: "is_double 20"
  by (rule is_double_binade [where e = 4 and n = "5 * 2 ^ 50"]) simp_all

lemma is_double_4: "is_double 4"
  by (rule is_double_binade [where e = 2 and n = "2 ^ 52"]) simp_all

lemma is_double_8: "is_double 8"
  by (rule is_double_binade [where e = 3 and n = "2 ^ 52"]) simp_all

lemma is_double_12: "is_double 12"
  by (rule is_double_binade [where e = 3 and n = "3 * 2 ^ 51"]) simp_all

lemma is_double_16: "is_double 16"
  by (rule is_double_binade [where e = 4 and n = "2 ^ 52"]) simp_all

lemma is_double_32: "is_double 32"
  by (rule is_double_binade [where e = 5 and n = "2 ^ 52"]) simp_all

lemma is_double_52: "is_double 52"
  by (rule is_double_binade [where e = 5 and n = "13 * 2 ^ 49"]) simp_all

lemma is_double_1e17: "is_double (10 ^ 17)"
  by (rule is_double_binade [where e = 56 and n = "6250000000000000"]) simp_all

lemma is_double_1e18: "is_double (10 ^ 18)"
  by (rule is_double_binade [where e = 59 and n = "7812500000000000"]) simp_all

lemma is_double_tiny: "is_double (2 powi (- 50))"
  by (rule is_double_binade [where e = "- 50" and n = "2 ^ 52"]) simp_all

text \<open>
  Between 16 and 32 the doubles are \<open>2 powi (- 48)\<close> apart, so a real within a
  quarter of that below 20 is rounded to 20.
\<close>

lemma round_just_below_20: "round_double (20 - 2 powi (- 50)) = Finite 20"
proof -
  have f: "\<lfloor>(20 - 2 powi (- 50)) / 2 powi (4 - 52) :: real\<rfloor> = 5 * 2 ^ 50 - 1"
    by (rule floor_unique) simp_all
  have "round_half_even ((20 - 2 powi (- 50)) / 2 powi (4 - 52)) = 5 * 2 ^ 50"
    unfolding round_half_even_def Let_def f by simp
  from round_double_binade [where e = 4 and x = "20 - 2 powi (- 50)", OF _ _ _ _ this]
  show ?thesis by simp
qed

lemma small_correction_absorbed:
  assumes "0 \<le> u" and "u \<le> 2 powi (- 50)"
  shows "dsub (Finite 20) (round_double u) = Finite 20"
proof -
  have "dle (Finite 0) (round_double u)" using assms(1) by (rule round_double_nonneg)
  moreover have "dle (round_double u) (Finite (2 powi (- 50)))"
    using round_double_mono [OF assms(2)] is_double_tiny by (simp add: is_double_def)
  ultimately obtain c where c: "round_double u = Finite c" "0 \<le> c" "c \<le> 2 powi (- 50)"
    by (cases "round_double u") simp_all
  have "dle (round_double (20 - 2 powi (- 50))) (round_double (20 - c))"
    using c(3) by (intro round_double_mono) simp
  moreover have "dle (round_double (20 - c)) (round_double 20)"
    using c(2) by (intro round_double_mono) simp
  ultimately have "round_double (20 - c) = Finite 20"
    using round_just_below_20 is_double_20 dle_antisym_Finite by (simp add: is_double_def)
  then show ?thesis using c(1) by simp
qed

theorem larger_factor_no_stronger_correction_witness:
  "is_double 20 \<and> (20::real) < 52 \<and> (0::real) < 2 \<and> (2::real) < 4
   \<and> compensated_temperature (Finite 20) (Finite 52) (Finite 2) = Inr (Finite 4)
   \<and> compensated_temperature (Finite 20) (Finite 52) (Finite 4) = Inr (Finite 12)
   \<and> dle (Finite 4) (Finite 12) \<and> dle (Finite 12) (Finite 20) \<and> \<not> dle (Finite 12) (Finite 4)"
proof -
  have a: "(20::real) < 52" and b: "(0::real) < 2" and c: "(2::real) < 4" by simp_all
  have x: "is_double (52 - 20)" "is_double ((52 - 20) / 2)" "is_double (20 - (52 - 20) / 2)"
    "is_double ((52 - 20) / 4)" "is_double (20 - (52 - 20) / 4)"
    using is_double_32 is_double_16 is_double_4 is_double_8 is_double_12 by simp_all
  from larger_factor_no_stronger_correction [OF is_double_20 a b c] x
  show ?thesis using is_double_20 by auto
qed

text \<open>
  The corrections under two different factors can coincide: with a raw temperature of
  20.0 and an average of 52.0, the factors 1e17 and 1e18 both return 20.0, the quotient
  being rounded away in the last subtraction.
\<close>

theorem equal_corrections_counterexample:
  "is_double 20 \<and> is_double 52 \<and> is_double (10 ^ 17) \<and> is_double (10 ^ 18)
   \<and> compensated_temperature (Finite 20) (Finite 52) (Finite (10 ^ 17)) = Inr (Finite 20)
   \<and> compensated_temperature (Finite 20) (Finite 52) (Finite (10 ^ 18)) = Inr (Finite 20)"
proof -
  have d: "dsub (Finite 52) (Finite 20) = Finite 32"
    using is_double_32 by (simp add: is_double_def)
  have "dsub (Finite 20) (round_double (32 / 10 ^ 17)) = Finite 20"
    by (rule small_correction_absorbed) simp_all
  moreover have "dsub (Finite 20) (round_double (32 / 10 ^ 18)) = Finite 20"
    by (rule small_correction_absorbed) simp_all
  ultimately show ?thesis
    using d is_double_20 is_double_52 is_double_1e17 is_double_1e18
    by (simp add: compensated_temperature_def)
qed

text \<open>
  Claim C2. The window does not persist: every call rebuilds it from the two samples it
  takes itself. Over five consecutive calls that sample 1, 2, ..., 10 degrees, the window
  of the fifth call is four times 9 and once 10: neither the five most recent samples
  6 to 10 nor the newest sample of each of the five calls.
\<close>

theorem window_rebuilt_every_call:
  "map (window_of_call (PyFloat 2)) five_calls =
     [Some [1, 1, 1, 1, 2], Some [3, 3, 3, 3, 4], Some [5, 5, 5, 5, 6], Some [7, 7, 7, 7, 8],
      Some [9, 9, 9, 9, 10]]
   \<and> cpu_samples five_calls = [1, 2, 3, 4, 5, 6, 7, 8, 9, 10]
   \<and> window_of_call (PyFloat 2) (last five_calls) \<noteq> Some (drop 5 (cpu_samples five_calls))
   \<and> window_of_call (PyFloat 2) (last five_calls) \<noteq> Some [2, 4, 6, 8, 10]"
  by (simp add: five_calls_def window_of_call_def cpu_temps_eq nominal_readings_def)

section \<open>Properties of the poll loop\<close>

lemma read_temperature_calls:
  "api_calls (snd (read_temperature f r s)) = api_calls s @ [Get_temperature]"
  "filter gas_or_pms (driver_calls (snd (read_temperature f r s))) = filter gas_or_pms (driver_calls s)"
  by (auto simp add: read_temperature_def get_temperature_def get_cpu_temperature_def
      effect_defs gas_or_pms_def Let_def split: sum.splits prod.splits)

lemma read_pressure_calls:
  "api_calls (snd (read_pressure r s)) = api_calls s @ [Get_pressure]"
  "filter gas_or_pms (driver_calls (snd (read_pressure r s))) = filter gas_or_pms (driver_calls s)"
  by (auto simp add: read_pressure_def get_pressure_def
      effect_defs gas_or_pms_def Let_def split: sum.splits prod.splits option.splits)

lemma read_humidity_calls:
  "api_calls (snd (read_humidity r s)) = api_calls s @ [Get_humidity]"
  "filter gas_or_pms (driver_calls (snd (read_humidity r s))) = filter gas_or_pms (driver_calls s)"
  by (auto simp add: read_humidity_def get_humidity_def
      effect_defs gas_or_pms_def Let_def split: sum.splits prod.splits option.splits)

lemma read_light_calls:
  "api_calls (snd (read_light r s)) = api_calls s @ [Get_light]"
  "filter gas_or_pms (driver_calls (snd (read_light r s))) = filter gas_or_pms (driver_calls s)"
  by (auto simp add: read_light_def get_light_def
      effect_defs gas_or_pms_def Let_def split: sum.splits prod.splits option.splits)

lemma and_then_Inl: "fst m = Inl e \<Longrightarrow> and_then m f = (Inl e, snd m)"
  by (cases m) (simp add: and_then_def)

lemma and_then_Inr: "fst m = Inr v \<Longrightarrow> and_then m f = f (snd m)"
  by (cases m) (simp add: and_then_def)

text \<open>The accessor calls of one iteration on the reduced variant.\<close>

lemma poll_iteration_enviro_api:
  "\<exists>k. api_calls (snd (poll_iteration f (Some True) d r s)) =
        api_calls s @ take k [Get_temperature, Get_pressure, Get_humidity, Get_light]
      \<and> (fst (poll_iteration f (Some True) d r s) = Inr () \<longrightarrow> k = 4)"
proof -
  let ?m1 = "read_temperature f r s"
  let ?m2 = "read_pressure r (snd ?m1)"
  let ?m3 = "read_humidity r (snd ?m2)"
  let ?m4 = "read_light r (snd ?m3)"
  show ?thesis
  proof (cases "fst ?m1")
    case (Inl e)
    then have "poll_iteration f (Some True) d r s = (Inl e, snd ?m1)"
      by (simp add: poll_iteration_def and_then_Inl)
    then show ?thesis
      by (intro exI[of _ 1]) (simp add: read_temperature_calls)
  next
    case a: (Inr v1)
    show ?thesis
    proof (cases "fst ?m2")
      case (Inl e)
      then have "poll_iteration f (Some True) d r s = (Inl e, snd ?m2)"
        using a by (simp add: poll_iteration_def and_then_Inl and_then_Inr)
      then show ?thesis
        by (intro exI[of _ 2]) (simp add: read_temperature_calls read_pressure_calls)
    next
      case b: (Inr v2)
      show ?thesis
      proof (cases "fst ?m3")
        case (Inl e)
        then have "poll_iteration f (Some True) d r s = (Inl e, snd ?m3)"
          using a b by (simp add: poll_iteration_def and_then_Inl and_then_Inr)
        then show ?thesis
          by (intro exI[of _ 3])
            (simp add: read_temperature_calls read_pressure_calls read_humidity_calls)
      next
        case c: (Inr v3)
        show ?thesis
        proof (cases "fst ?m4")
          case (Inl e)
          then have "poll_iteration f (Some True) d r s = (Inl e, snd ?m4)"
            using a b c by (simp add: poll_iteration_def and_then_Inl and_then_Inr)
          then show ?thesis
            by (intro exI[of _ 4])
              (simp add: read_temperature_calls read_pressure_calls read_humidity_calls
                read_light_calls)
        next
          case e: (Inr v4)
          then have "poll_iteration f (Some True) d r s =
              (if d then (Inr (), logging_at INFO ''Sensor data: {}'' (snd ?m4))
               else (Inr (), snd ?m4))"
            using a b c by (simp add: poll_iteration_def and_then_Inl and_then_Inr)
          then show ?thesis
            by (intro exI[of _ 4])
              (simp add: read_temperature_calls read_pressure_calls read_humidity_calls
                read_light_calls logging_at_def)
        qed
      qed
    qed
  qed
qed

lemma and_then_preserves:
  assumes "\<phi> (snd m) = c" and "\<And>s. \<phi> (snd (f s)) = \<phi> s"
  shows "\<phi> (snd (and_then m f)) = c"
proof (cases "fst m")
  case (Inl e)
  then show ?thesis using assms(1) by (simp add: and_then_Inl)
next
  case (Inr v)
  then show ?thesis using assms by (simp add: and_then_Inr)
qed

lemma poll_iteration_enviro_drivers:
  "filter gas_or_pms (driver_calls (snd (poll_iteration f (Some True) d r s))) =
   filter gas_or_pms (driver_calls s)"
  unfolding poll_iteration_def
  by (intro and_then_preserves [where \<phi> = "\<lambda>s. filter gas_or_pms (driver_calls s)"])
    (simp_all add: read_temperature_calls read_pressure_calls read_humidity_calls
      read_light_calls logging_at_def)

lemma poll_iteration_enviro_accessors:
  "filter gas_or_particulates (api_calls (snd (poll_iteration f (Some True) d r s))) =
   filter gas_or_particulates (api_calls s)"
proof -
  obtain k where "api_calls (snd (poll_iteration f (Some True) d r s)) =
      api_calls s @ take k [Get_temperature, Get_pressure, Get_humidity, Get_light]"
    using poll_iteration_enviro_api by blast
  moreover have "filter gas_or_particulates
      (take k [Get_temperature, Get_pressure, Get_humidity, Get_light]) = []"
    by (auto simp add: filter_empty_conv gas_or_particulates_def dest!: in_set_takeD)
  ultimately show ?thesis by simp
qed

lemma poll_iteration_enviro_completed:
  assumes "poll_iteration f (Some True) d r s = (Inr u, s')"
  shows "api_calls s' = api_calls s @ [Get_temperature, Get_pressure, Get_humidity, Get_light]"
proof -
  obtain k where k: "api_calls (snd (poll_iteration f (Some True) d r s)) =
      api_calls s @ take k [Get_temperature, Get_pressure, Get_humidity, Get_light]"
    "fst (poll_iteration f (Some True) d r s) = Inr () \<longrightarrow> k = 4"
    using poll_iteration_enviro_api by blast
  then show ?thesis using assms by simp
qed

text \<open>
  Claim C7. With the device-variant flag true, over any number of iterations and whatever
  the hardware answers, the loop adds no call of the gas or particulate accessor and no
  driver call of those sensors; and as long as the loop is running (no iteration has
  raised), every iteration has called exactly the temperature, pressure, humidity and
  light accessors, in that order.
\<close>

theorem enviro_flag_skips_gas_and_particulates:
  "filter gas_or_particulates (api_calls (snd (poll_loop f (Some True) d rs s))) =
     filter gas_or_particulates (api_calls s)
   \<and> filter gas_or_pms (driver_calls (snd (poll_loop f (Some True) d rs s))) =
     filter gas_or_pms (driver_calls s)
   \<and> (fst (poll_loop f (Some True) d rs s) = None \<longrightarrow>
        api_calls (snd (poll_loop f (Some True) d rs s)) =
          api_calls s @
          concat (replicate (length rs)
            [Get_temperature, Get_pressure, Get_humidity, Get_light]))"
proof (induction rs arbitrary: s)
  case Nil
  show ?case by simp
next
  case (Cons r rs)
  obtain res s' where it: "poll_iteration f (Some True) d r s = (res, s')"
    by (cases "poll_iteration f (Some True) d r s")
  have acc: "filter gas_or_particulates (api_calls s') = filter gas_or_particulates (api_calls s)"
    using poll_iteration_enviro_accessors [of f d r s] it by simp
  have drv: "filter gas_or_pms (driver_calls s') = filter gas_or_pms (driver_calls s)"
    using poll_iteration_enviro_drivers [of f d r s] it by simp
  show ?case
  proof (cases res)
    case (Inl e)
    then show ?thesis using it acc drv by simp
  next
    case (Inr u)
    then have "api_calls s' =
        api_calls s @ [Get_temperature, Get_pressure, Get_humidity, Get_light]"
      using it poll_iteration_enviro_completed by blast
    then show ?thesis using Inr it acc drv Cons.IH [of s'] by simp
  qed
qed

theorem enviro_flag_skips_gas_and_particulates_witness:
  "fst (poll_loop (PyFloat 2) (Some True) False [nominal_readings, nominal_readings]
          initial_state) = None
   \<and> api_calls (snd (poll_loop (PyFloat 2) (Some True) False
          [nominal_readings, nominal_readings] initial_state)) =
       [Get_temperature, Get_pressure, Get_humidity, Get_light,
        Get_temperature, Get_pressure, Get_humidity, Get_light]"
proof -
  have run: "fst (poll_loop (PyFloat 2) (Some True) False [nominal_readings, nominal_readings]
          initial_state) = None"
    by (simp add: poll_iteration_def and_then_def read_temperature_def read_pressure_def
        read_humidity_def read_light_def get_temperature_def get_cpu_temperature_def
        get_pressure_def get_humidity_def get_light_def effect_defs nominal_readings_def
        initial_state_def)
  from enviro_flag_skips_gas_and_particulates
    [of "PyFloat 2" False "[nominal_readings, nominal_readings]" initial_state] run
  show ?thesis by (simp add: initial_state_def numeral_eq_Suc)
qed

section \<open>Properties of the forwarder to the aggregation service\<close>

lemma luftdaten_values_collect:
  "luftdaten_values (collect_all_data g) =
     Inr [(''P2'', JFloat (g PM25)), (''P1'', JFloat (g PM10)),
          (''temperature'', JFormat2f (g TEMPERATURE)),
          (''pressure'', JFormat2f (g PRESSURE * 100)),
          (''humidity'', JFormat2f (g HUMIDITY))]"
  by (simp add: luftdaten_values_def collect_all_data_def getitem_def)

lemma luftdaten_push_posts:
  "fst (luftdaten_push D uid g out_1 out_11 s) = Inr ()
   \<and> http_posts (snd (luftdaten_push D uid g out_1 out_11 s)) =
       http_posts s @
       (if out_1 = Raises
        then [luftdaten_request ''1'' uid [(''P2'', JFloat (g PM25)), (''P1'', JFloat (g PM10))]]
        else [luftdaten_request ''1'' uid [(''P2'', JFloat (g PM25)), (''P1'', JFloat (g PM10))],
              luftdaten_request ''11'' uid
                [(''temperature'', JFormat2f (g TEMPERATURE)),
                 (''pressure'', JFormat2f (g PRESSURE * 100)),
                 (''humidity'', JFormat2f (g HUMIDITY))]])"
  by (cases out_1; cases out_11)
    (simp_all add: luftdaten_push_def luftdaten_values_collect startswith_def
      requests_post_def logging_at_def Let_def)

lemma luftdaten_loop_posts:
  assumes "0 \<le> interval"
  shows "fst (luftdaten_loop D interval uid cycles s) = None
   \<and> http_posts (snd (luftdaten_loop D interval uid cycles s)) =
       http_posts s @
       concat (map (\<lambda>(g, out_1, out_11).
         if out_1 = Raises
         then [luftdaten_request ''1'' uid [(''P2'', JFloat (g PM25)), (''P1'', JFloat (g PM10))]]
         else [luftdaten_request ''1'' uid [(''P2'', JFloat (g PM25)), (''P1'', JFloat (g PM10))],
               luftdaten_request ''11'' uid
                 [(''temperature'', JFormat2f (g TEMPERATURE)),
                  (''pressure'', JFormat2f (g PRESSURE * 100)),
                  (''humidity'', JFormat2f (g HUMIDITY))]]) cycles)"
proof (induction cycles arbitrary: s)
  case Nil
  show ?case by simp
next
  case (Cons c cs)
  obtain g out_1 out_11 where c: "c = (g, out_1, out_11)" by (cases c)
  let ?s0 = "s\<lparr>slept := slept s + nat interval\<rparr>"
  obtain res s' where p: "luftdaten_push D uid g out_1 out_11 ?s0 = (res, s')"
    by (cases "luftdaten_push D uid g out_1 out_11 ?s0")
  from luftdaten_push_posts [of D uid g out_1 out_11 ?s0] p
  have res: "res = Inr ()" and posts: "http_posts s' = http_posts s @
       (if out_1 = Raises
        then [luftdaten_request ''1'' uid [(''P2'', JFloat (g PM25)), (''P1'', JFloat (g PM10))]]
        else [luftdaten_request ''1'' uid [(''P2'', JFloat (g PM25)), (''P1'', JFloat (g PM10))],
              luftdaten_request ''11'' uid
                [(''temperature'', JFormat2f (g TEMPERATURE)),
                 (''pressure'', JFormat2f (g PRESSURE * 100)),
                 (''humidity'', JFormat2f (g HUMIDITY))]])"
    by simp_all
  show ?case
    using assms c p res posts Cons.IH [of s'] by simp
qed

text \<open>
  Claim C9, as amended. When \<open>/proc/cpuinfo\<close> yields a serial number, the forwarder
  keeps running, and every push cycle POSTs, from the one set of gauge values it
  collected, first the particulate payload (P2, P1) under pin 1 and then, unless that
  first POST raised, the temperature, pressure and humidity payload under pin 11: two
  POSTs when the first one returns, one when it raises. Every request carries the device
  UID \<open>raspi-\<close> followed by the serial number and the software version
  \<open>enviro-plus 0.0.1\<close>.
\<close>

theorem luftdaten_posts_per_cycle:
  assumes "get_serial_number cpuinfo = Inr (Some serial)" and "0 \<le> interval"
  shows "fst (post_to_luftdaten D interval cpuinfo cycles s) = None
   \<and> http_posts (snd (post_to_luftdaten D interval cpuinfo cycles s)) =
       http_posts s @
       concat (map (\<lambda>(g, out_1, out_11).
         if out_1 = Raises
         then [\<lparr>url = ''https://api.luftdaten.info/v1/push-sensor-data/'',
                software_version = ''enviro-plus 0.0.1'',
                sensordatavalues = [(''P2'', JFloat (g PM25)), (''P1'', JFloat (g PM10))],
                headers = [(''X-PIN'', ''1''), (''X-Sensor'', ''raspi-'' @ serial),
                           (''Content-Type'', ''application/json''),
                           (''cache-control'', ''no-cache'')]\<rparr>]
         else [\<lparr>url = ''https://api.luftdaten.info/v1/push-sensor-data/'',
                software_version = ''enviro-plus 0.0.1'',
                sensordatavalues = [(''P2'', JFloat (g PM25)), (''P1'', JFloat (g PM10))],
                headers = [(''X-PIN'', ''1''), (''X-Sensor'', ''raspi-'' @ serial),
                           (''Content-Type'', ''application/json''),
                           (''cache-control'', ''no-cache'')]\<rparr>,
               \<lparr>url = ''https://api.luftdaten.info/v1/push-sensor-data/'',
                software_version = ''enviro-plus 0.0.1'',
                sensordatavalues =
                  [(''temperature'', JFormat2f (g TEMPERATURE)),
                   (''pressure'', JFormat2f (g PRESSURE * 100)),
                   (''humidity'', JFormat2f (g HUMIDITY))],
                headers = [(''X-PIN'', ''11''), (''X-Sensor'', ''raspi-'' @ serial),
                           (''Content-Type'', ''application/json''),
                           (''cache-control'', ''no-cache'')]\<rparr>]) cycles)"
  using assms
    luftdaten_loop_posts [of interval D "''raspi-'' @ serial" cycles s,
      unfolded luftdaten_request_def]
  by (simp add: post_to_luftdaten_def)

lemma cpuinfo_serial: "get_serial_number cpuinfo_lines = Inr (Some ''10000000abcdef12'')"
  by (simp add: cpuinfo_lines_def strip_def isspace_def)

theorem luftdaten_posts_per_cycle_witness:
  "get_serial_number cpuinfo_lines = Inr (Some ''10000000abcdef12'') \<and> (0::int) \<le> 30
   \<and> fst (post_to_luftdaten False 30 cpuinfo_lines
        [(\<lambda>_. 1, Response True, Response False), (\<lambda>_. 2, Raises, Response True)]
        initial_state) = None
   \<and> map (\<lambda>q. (headers q, sensordatavalues q))
       (http_posts (snd (post_to_luftdaten False 30 cpuinfo_lines
        [(\<lambda>_. 1, Response True, Response False), (\<lambda>_. 2, Raises, Response True)]
        initial_state))) =
      [([(''X-PIN'', ''1''), (''X-Sensor'', ''raspi-10000000abcdef12''),
         (''Content-Type'', ''application/json''), (''cache-control'', ''no-cache'')],
        [(''P2'', JFloat 1), (''P1'', JFloat 1)]),
       ([(''X-PIN'', ''11''), (''X-Sensor'', ''raspi-10000000abcdef12''),
         (''Content-Type'', ''application/json''), (''cache-control'', ''no-cache'')],
        [(''temperature'', JFormat2f 1), (''pressure'', JFormat2f 100),
         (''humidity'', JFormat2f 1)]),
       ([(''X-PIN'', ''1''), (''X-Sensor'', ''raspi-10000000abcdef12''),
         (''Content-Type'', ''application/json''), (''cache-control'', ''no-cache'')],
        [(''P2'', JFloat 2), (''P1'', JFloat 2)])]"
proof -
  have i: "(0::int) \<le> 30" by simp
  from luftdaten_posts_per_cycle [OF cpuinfo_serial i, of False
      "[(\<lambda>_. 1, Response True, Response False), (\<lambda>_. 2, Raises, Response True)]"
      initial_state]
  show ?thesis using cpuinfo_serial by (simp add: initial_state_def)
qed

text \<open>
  A cycle whose first POST raises makes one POST, not two: the second stands in the same
  \<open>try\<close> block and is skipped.
\<close>

theorem luftdaten_single_post_counterexample:
  "length (http_posts (snd (post_to_luftdaten False 30 cpuinfo_lines
      [(\<lambda>_. 1, Raises, Response True)] initial_state))) = 1
   \<and> length (http_posts (snd (post_to_luftdaten False 30 cpuinfo_lines
      [(\<lambda>_. 1, Raises, Response True)] initial_state))) \<noteq> 2"
  by (simp add: post_to_luftdaten_def cpuinfo_serial luftdaten_push_def
      luftdaten_values_collect requests_post_def logging_at_def startswith_def Let_def
      initial_state_def)

section \<open>Properties of the factor selection\<close>

text \<open>
  Claim C10. The factor is chosen by truthiness: a nonzero command-line factor is the
  factor, whatever the environment says; with the command-line factor omitted or equal
  to 0 the value derived from the environment is used, whatever it is. So with the
  environment variable set to a nonzero float \<open>x\<close>, a command-line factor of 0 still
  gives the truthy factor \<open>x\<close>. An environment value that \<open>float\<close> reads as zero,
  \<open>'0'\<close> among them (as an unset variable), becomes \<open>False\<close>, and compensation
  is off when the command line does not supply a nonzero factor; a value \<open>float\<close>
  rejects raises \<open>ValueError\<close>. The builtin \<open>float\<close> is a parameter.
\<close>

theorem factor_truthiness_fallback:
  assumes "py_float ''0'' = Some 0" and "py_float v = Some x" and "x \<noteq> 0"
  shows "main_factor None env = env
       \<and> main_factor (Some 0) env = env
       \<and> main_factor (Some y) env = (if y = 0 then env else PyFloat y)
       \<and> truthy (main_factor (Some y) env) = (if y = 0 then truthy env else True)
       \<and> ENVIROPLUS_FACTOR py_float (Some v) = Inr (PyFloat x)
       \<and> main_factor (Some 0) (PyFloat x) = PyFloat x
       \<and> truthy (main_factor (Some 0) (PyFloat x))
       \<and> ENVIROPLUS_FACTOR py_float (Some ''0'') = Inr PyFalse
       \<and> ENVIROPLUS_FACTOR py_float None = Inr PyFalse
       \<and> ENVIROPLUS_FACTOR py_float (Some w) =
           (case py_float w of
              None \<Rightarrow> Inl ValueError
            | Some z \<Rightarrow> Inr (if z = 0 then PyFalse else PyFloat z))
       \<and> \<not> truthy (main_factor None PyFalse)
       \<and> \<not> truthy (main_factor (Some 0) PyFalse)"
  using assms
  by (simp add: main_factor_def ENVIROPLUS_FACTOR_def py_or_def split: option.split)

theorem factor_truthiness_fallback_witness:
  "float_of_literal ''0'' = Some 0 \<and> float_of_literal ''1.5'' = Some (3 / 2)
   \<and> ENVIROPLUS_FACTOR float_of_literal (Some ''1.5'') = Inr (PyFloat (3 / 2))
   \<and> main_factor (Some 0) (PyFloat (3 / 2)) = PyFloat (3 / 2)
   \<and> main_factor (Some 3) (PyFloat (3 / 2)) = PyFloat 3
   \<and> ENVIROPLUS_FACTOR float_of_literal (Some ''0'') = Inr PyFalse
   \<and> ENVIROPLUS_FACTOR float_of_literal (Some ''abc'') = Inl ValueError"
proof -
  have a: "float_of_literal ''0'' = Some 0" and b: "float_of_literal ''1.5'' = Some (3 / 2)"
    by (simp_all add: float_of_literal_def)
  have c: "(3 / 2 :: real) \<noteq> 0" by simp
  have d: "float_of_literal ''abc'' = None" by (simp add: float_of_literal_def)
  from factor_truthiness_fallback
    [OF a b c, where env = "PyFloat (3 / 2)" and y = 3 and w = "''abc''"] a b d
  show ?thesis by simp
qed

end
